theory Spec2Isabelle
  imports Main "HOL-Library.Word" "HOL-Library.AList" "HOL-Library.Sublist"
begin

unbundle bit_operations_syntax

section \<open>Values stored in the JSON files\<close>

text \<open>
  \<^verbatim>\<open>app.py\<close> keeps three JSON files. What \<^verbatim>\<open>json.load\<close> returns is a Python
  value built from \<^verbatim>\<open>None\<close>, booleans, integers, floats, strings, lists and
  dictionaries with string keys. A dictionary is an association list in insertion
  order; it is read with \<open>map_of\<close> and written with \<open>AList.update\<close>, which replaces
  the value of a key in place and puts a new key at the end, as a Python \<^verbatim>\<open>dict\<close>
  does. Strings are sequences of bytes (the UTF-8 encoding of the Python \<^verbatim>\<open>str\<close>).

  A number written with a fraction or an exponent, and the literals \<^verbatim>\<open>NaN\<close>,
  \<^verbatim>\<open>Infinity\<close> and \<^verbatim>\<open>-Infinity\<close>, load as a \<^verbatim>\<open>float\<close>: a finite one is
  \<open>m * 2 ^ e\<close>, and the negative zero is kept apart from it.
\<close>

datatype pyfloat = Finite int int | MinusZero | Infinity | MinusInfinity | NaN

datatype json =
    JNull
  | JBool bool
  | JInt int
  | JFloat pyfloat
  | JStr string
  | JList "json list"
  | JDict "(string \<times> json) list"

text \<open>The exceptions the script can raise while it handles one interaction.\<close>

datatype error =
    UnicodeDecodeError
  | JSONDecodeError
  | ValueError
  | RecursionError
  | TypeError
  | KeyError
  | AttributeError

text \<open>
  A file that exists holds bytes that are not text in the encoding of \<^verbatim>\<open>open\<close>, or
  text that is not JSON, or a JSON document, given by the value it denotes.
\<close>

datatype content = Undecodable | Malformed | Doc json

datatype filename = PATIENT_FILE | DOCTOR_FILE | USER_FILE

text \<open>
  The three files, with the two things the script takes from the Python interpreter
  it runs in and never changes.

  \<^item> \<^verbatim>\<open>json.load\<close> parses nested arrays and objects by recursion and stops with
    \<^verbatim>\<open>RecursionError\<close> where the interpreter's recursion limit is reached. What is
    left of that limit where a file is loaded lets through two levels, a list of
    records, and \<open>headroom\<close> more.
  \<^item> \<^verbatim>\<open>str.lower\<close> is the case mapping of Unicode; \<open>str_lower\<close> is that function
    on the UTF-8 encoding.
\<close>

record files =
  patients_json :: "content option"
  doctors_json :: "content option"
  users_json :: "content option"
  headroom :: "filename \<Rightarrow> nat"
  str_lower :: "string \<Rightarrow> string"

text \<open>\<^verbatim>\<open>open(file, "r")\<close> after \<^verbatim>\<open>os.path.exists(file)\<close>; \<open>None\<close> is a file that does not exist.\<close>

fun read_file :: "files \<Rightarrow> filename \<Rightarrow> content option" where
  "read_file fs PATIENT_FILE = patients_json fs"
| "read_file fs DOCTOR_FILE = doctors_json fs"
| "read_file fs USER_FILE = users_json fs"

text \<open>\<^verbatim>\<open>open(file, "w")\<close> followed by \<^verbatim>\<open>json.dump\<close>: the file is created or overwritten.\<close>

fun write_file :: "files \<Rightarrow> filename \<Rightarrow> content \<Rightarrow> files" where
  "write_file fs PATIENT_FILE c = fs\<lparr>patients_json := Some c\<rparr>"
| "write_file fs DOCTOR_FILE c = fs\<lparr>doctors_json := Some c\<rparr>"
| "write_file fs USER_FILE c = fs\<lparr>users_json := Some c\<rparr>"

section \<open>Load and save\<close>

text \<open>
  \<^verbatim>\<open>json.load\<close> reads a document from left to right and raises at the first thing
  it cannot build: \<^verbatim>\<open>ValueError\<close> at an integer of more than 4300 digits, the limit
  \<^verbatim>\<open>sys.int_info.default_max_str_digits\<close> of the conversion from a string to an
  \<^verbatim>\<open>int\<close>, and \<^verbatim>\<open>RecursionError\<close> at an
  array or object that is nested deeper than \<open>depth\<close> levels. Floats have no such
  limit: one too large for a double loads as infinity.
\<close>

definition max_str_digits :: nat where
  "max_str_digits = 4300"

fun first_error :: "error option list \<Rightarrow> error option" where
  "first_error [] = None"
| "first_error (None # rs) = first_error rs"
| "first_error (Some e # rs) = Some e"

fun scan :: "nat \<Rightarrow> json \<Rightarrow> error option" where
  "scan depth (JInt i) = (if 10 ^ max_str_digits \<le> \<bar>i\<bar> then Some ValueError else None)"
| "scan 0 (JList xs) = Some RecursionError"
| "scan (Suc depth) (JList xs) = first_error (map (scan depth) xs)"
| "scan 0 (JDict d) = Some RecursionError"
| "scan (Suc depth) (JDict d) = first_error (map (\<lambda>kv. scan depth (snd kv)) d)"
| "scan depth j = None"

definition json_load :: "nat \<Rightarrow> content \<Rightarrow> error + json" where
  "json_load depth c =
     (case c of
        Undecodable \<Rightarrow> Inl UnicodeDecodeError
      | Malformed \<Rightarrow> Inl JSONDecodeError
      | Doc data \<Rightarrow> (case scan depth data of Some e \<Rightarrow> Inl e | None \<Rightarrow> Inr data))"

definition load_records :: "files \<Rightarrow> filename \<Rightarrow> error + json" where
  "load_records fs file =
     (case read_file fs file of
        None \<Rightarrow> Inr (JList [])
      | Some c \<Rightarrow> json_load (2 + headroom fs file) c)"

definition save_records :: "files \<Rightarrow> filename \<Rightarrow> json \<Rightarrow> files" where
  "save_records fs file records = write_file fs file (Doc records)"

definition load_users :: "files \<Rightarrow> error + (string \<times> json) list" where
  "load_users fs =
     (case read_file fs USER_FILE of
        None \<Rightarrow> Inr []
      | Some c \<Rightarrow>
          (case json_load (2 + headroom fs USER_FILE) c of
             Inl e \<Rightarrow> Inl e
           | Inr data \<Rightarrow> (case data of JDict d \<Rightarrow> Inr d | _ \<Rightarrow> Inr [])))"

definition save_users :: "files \<Rightarrow> (string \<times> json) list \<Rightarrow> files" where
  "save_users fs users = save_records fs USER_FILE (JDict users)"

section \<open>SHA-256\<close>

text \<open>
  \<^verbatim>\<open>hashlib.sha256(data).hexdigest()\<close>, following FIPS 180-4: the message is
  padded to a multiple of 64 bytes, cut into blocks of sixteen 32-bit words, and each
  block is run through 64 rounds of the compression function.
\<close>

type_synonym w32 = "32 word"

type_synonym hstate = "w32 \<times> w32 \<times> w32 \<times> w32 \<times> w32 \<times> w32 \<times> w32 \<times> w32"

definition Ch :: "w32 \<Rightarrow> w32 \<Rightarrow> w32 \<Rightarrow> w32" where
  "Ch x y z = (x AND y) XOR (NOT x AND z)"

definition Maj :: "w32 \<Rightarrow> w32 \<Rightarrow> w32 \<Rightarrow> w32" where
  "Maj x y z = (x AND y) XOR (x AND z) XOR (y AND z)"

definition Sigma0 :: "w32 \<Rightarrow> w32" where
  "Sigma0 x = word_rotr 2 x XOR word_rotr 13 x XOR word_rotr 22 x"

definition Sigma1 :: "w32 \<Rightarrow> w32" where
  "Sigma1 x = word_rotr 6 x XOR word_rotr 11 x XOR word_rotr 25 x"

definition sigma0 :: "w32 \<Rightarrow> w32" where
  "sigma0 x = word_rotr 7 x XOR word_rotr 18 x XOR drop_bit 3 x"

definition sigma1 :: "w32 \<Rightarrow> w32" where
  "sigma1 x = word_rotr 17 x XOR word_rotr 19 x XOR drop_bit 10 x"

definition K256 :: "w32 list" where
  "K256 =
    [1116352408, 1899447441, 3049323471, 3921009573, 961987163, 1508970993, 2453635748, 2870763221,
     3624381080, 310598401, 607225278, 1426881987, 1925078388, 2162078206, 2614888103, 3248222580,
     3835390401, 4022224774, 264347078, 604807628, 770255983, 1249150122, 1555081692, 1996064986,
     2554220882, 2821834349, 2952996808, 3210313671, 3336571891, 3584528711, 113926993, 338241895,
     666307205, 773529912, 1294757372, 1396182291, 1695183700, 1986661051, 2177026350, 2456956037,
     2730485921, 2820302411, 3259730800, 3345764771, 3516065817, 3600352804, 4094571909, 275423344,
     430227734, 506948616, 659060556, 883997877, 958139571, 1322822218, 1537002063, 1747873779,
     1955562222, 2024104815, 2227730452, 2361852424, 2428436474, 2756734187, 3204031479, 3329325298]"

definition H256 :: hstate where
  "H256 = (1779033703, 3144134277, 1013904242, 2773480762,
           1359893119, 2600822924, 528734635, 1541459225)"

text \<open>Padding: the byte 0x80, zero bytes up to 56 modulo 64, the bit length on 8 bytes.\<close>

definition be_bytes :: "nat \<Rightarrow> nat \<Rightarrow> nat list" where
  "be_bytes k n = map (\<lambda>i. (n div 256 ^ (k - 1 - i)) mod 256) [0..<k]"

definition pad :: "nat list \<Rightarrow> nat list" where
  "pad bs = bs @ [128] @ replicate ((119 - length bs mod 64) mod 64) 0
              @ be_bytes 8 ((8 * length bs) mod 2 ^ 64)"

definition blocks :: "nat list \<Rightarrow> nat list list" where
  "blocks bs = map (\<lambda>i. take 64 (drop (64 * i) bs)) [0..<length bs div 64]"

definition be_word :: "nat list \<Rightarrow> w32" where
  "be_word bs = word_of_nat (foldl (\<lambda>acc b. 256 * acc + b) 0 bs)"

definition block_words :: "nat list \<Rightarrow> w32 list" where
  "block_words b = map (\<lambda>i. be_word (take 4 (drop (4 * i) b))) [0..<16]"

text \<open>The message schedule: \<open>n\<close> more words, each from four earlier ones.\<close>

fun schedule :: "nat \<Rightarrow> w32 list \<Rightarrow> w32 list" where
  "schedule 0 w = w"
| "schedule (Suc n) w =
     schedule n (w @ [sigma1 (w ! (length w - 2)) + w ! (length w - 7)
                      + sigma0 (w ! (length w - 15)) + w ! (length w - 16)])"

fun round256 :: "hstate \<Rightarrow> w32 \<times> w32 \<Rightarrow> hstate" where
  "round256 (a, b, c, d, e, f, g, h) (k, w) =
     (let t1 = h + Sigma1 e + Ch e f g + k + w;
          t2 = Sigma0 a + Maj a b c
      in (t1 + t2, a, b, c, d + t1, e, f, g))"

fun add_state :: "hstate \<Rightarrow> hstate \<Rightarrow> hstate" where
  "add_state (a, b, c, d, e, f, g, h) (a', b', c', d', e', f', g', h') =
     (a + a', b + b', c + c', d + d', e + e', f + f', g + g', h + h')"

definition process_block :: "hstate \<Rightarrow> nat list \<Rightarrow> hstate" where
  "process_block hs b =
     add_state hs (foldl round256 hs (zip K256 (schedule 48 (block_words b))))"

definition sha256 :: "nat list \<Rightarrow> hstate" where
  "sha256 bs = foldl process_block H256 (blocks (pad bs))"

definition hex_digit :: "nat \<Rightarrow> char" where
  "hex_digit n = ''0123456789abcdef'' ! (n mod 16)"

definition hex32 :: "w32 \<Rightarrow> string" where
  "hex32 w = map (\<lambda>i. hex_digit (unat w div 16 ^ (7 - i))) [0..<8]"

fun hexdigest :: "hstate \<Rightarrow> string" where
  "hexdigest (a, b, c, d, e, f, g, h) =
     hex32 a @ hex32 b @ hex32 c @ hex32 d @ hex32 e @ hex32 f @ hex32 g @ hex32 h"

section \<open>User functions\<close>

text \<open>\<^verbatim>\<open>password.encode()\<close> gives the bytes of the string.\<close>

definition encode :: "string \<Rightarrow> nat list" where
  "encode s = map of_char s"

definition hash_password :: "string \<Rightarrow> string" where
  "hash_password password = hexdigest (sha256 (encode password))"

text \<open>
  \<^verbatim>\<open>username in users and users[username] == hash_password(password)\<close>: a stored
  value equals the digest, a \<^verbatim>\<open>str\<close>, only when it is that string.
\<close>

definition verify_user :: "files \<Rightarrow> string \<Rightarrow> string \<Rightarrow> error + bool" where
  "verify_user fs username password =
     (case load_users fs of
        Inl e \<Rightarrow> Inl e
      | Inr users \<Rightarrow>
          (case map_of users username of
             None \<Rightarrow> Inr False
           | Some v \<Rightarrow> Inr (v = JStr (hash_password password))))"

definition add_user :: "files \<Rightarrow> string \<Rightarrow> string \<Rightarrow> error + (bool \<times> files)" where
  "add_user fs username password =
     (case load_users fs of
        Inl e \<Rightarrow> Inl e
      | Inr users \<Rightarrow>
          (case map_of users username of
             Some v \<Rightarrow> Inr (False, fs)
           | None \<Rightarrow>
               Inr (True, save_users fs
                      (AList.update username (JStr (hash_password password)) users))))"

section \<open>Python operations on loaded values\<close>

text \<open>Truth value of a loaded value, as \<^verbatim>\<open>if doctors\<close> and \<^verbatim>\<open>not patients\<close> test it.\<close>

fun truthy :: "json \<Rightarrow> bool" where
  "truthy JNull = False"
| "truthy (JBool b) = b"
| "truthy (JInt i) = (i \<noteq> 0)"
| "truthy (JFloat x) = (case x of Finite m e \<Rightarrow> m \<noteq> 0 | MinusZero \<Rightarrow> False | _ \<Rightarrow> True)"
| "truthy (JStr s) = (s \<noteq> [])"
| "truthy (JList xs) = (xs \<noteq> [])"
| "truthy (JDict d) = (d \<noteq> [])"

text \<open>
  \<^verbatim>\<open>d['name']\<close>: a dictionary without the key raises \<^verbatim>\<open>KeyError\<close>; every other
  value raises \<^verbatim>\<open>TypeError\<close> under a string subscript.
\<close>

fun getitem :: "json \<Rightarrow> string \<Rightarrow> error + json" where
  "getitem (JDict d) k = (case map_of d k of None \<Rightarrow> Inl KeyError | Some v \<Rightarrow> Inr v)"
| "getitem _ k = Inl TypeError"

text \<open>
  \<^verbatim>\<open>for d in doctors\<close>: a list gives its elements, a dictionary its keys, a string its
  characters; \<^verbatim>\<open>None\<close>, booleans and numbers are not iterable.
\<close>

fun iterate :: "json \<Rightarrow> error + json list" where
  "iterate (JList xs) = Inr xs"
| "iterate (JDict d) = Inr (map (\<lambda>kv. JStr (fst kv)) d)"
| "iterate (JStr s) = Inr (map (\<lambda>c. JStr [c]) s)"
| "iterate _ = Inl TypeError"

text \<open>\<^verbatim>\<open>a in b\<close> on strings: \<open>a\<close> occurs in \<open>b\<close> as a run of consecutive characters.\<close>

fun contains :: "string \<Rightarrow> string \<Rightarrow> bool" where
  "contains a [] = (a = [])"
| "contains a (c # cs) = (prefix a (c # cs) \<or> contains a cs)"

section \<open>Session state and the interface\<close>

text \<open>
  \<^verbatim>\<open>st.session_state\<close> holds two keys. A new browser session has neither, and the
  script gives them the values of \<open>initial_session\<close> before anything reads them.
\<close>

record session =
  logged_in :: bool
  username :: string

definition initial_session :: session where
  "initial_session = \<lparr>logged_in = False, username = []\<rparr>"

record world =
  disk :: files
  session_state :: session

datatype gender = Male | Female | Other

fun gender_str :: "gender \<Rightarrow> string" where
  "gender_str Male = ''Male''"
| "gender_str Female = ''Female''"
| "gender_str Other = ''Other''"

text \<open>
  The values of the widgets of the two forms. \<open>pf_age\<close> is what
  \<^verbatim>\<open>st.number_input("Age", min_value=0, max_value=120)\<close> returns, an \<^verbatim>\<open>int\<close> between
  these bounds; \<open>pf_doctor\<close> is what the select box returns, one of its options;
  \<open>pf_now\<close> and \<open>df_now\<close> are \<^verbatim>\<open>str(datetime.datetime.now())\<close> as read during the run.
\<close>

record patient_form =
  pf_name :: string
  pf_age :: int
  pf_gender :: gender
  pf_city :: string
  pf_doctor :: json
  pf_now :: string

record doctor_form =
  df_name :: string
  df_specialization :: string
  df_city :: string
  df_now :: string

text \<open>
  Streamlit runs the whole script once for each interaction. The input of a run is the
  page shown and its widgets: before login the radio choice with its two text fields and
  whether the button was clicked, after login the navigation choice with the widgets of
  that page. A button is clicked, or a form submitted, in the one run that the click
  causes.
\<close>

datatype ui =
    SignUp string string bool
  | Login string string bool
  | Home
  | AddPatient patient_form bool
  | ViewPatients string
  | AddDoctor doctor_form bool
  | ViewDoctors string
  | Logout bool

text \<open>What a run shows: the messages and the record cards.\<close>

datatype signal =
    AccountCreated
  | UsernameExists
  | FillAllFields
  | Welcome string
  | InvalidCredentials
  | HomeCard
  | PatientAdded string int
  | PatientIncomplete
  | NoPatients
  | PatientCards "json list"
  | DoctorAdded string int
  | DoctorIncomplete
  | NoDoctors
  | DoctorCards "json list"
  | LoggedOut

section \<open>Login and sign up\<close>

definition auth_page :: "ui \<Rightarrow> world \<Rightarrow> error + (world \<times> signal list)" where
  "auth_page inp w =
     (case inp of
        SignUp new_user new_pass clicked \<Rightarrow>
          if clicked then
            if new_user \<noteq> [] \<and> new_pass \<noteq> [] then
              (case add_user (disk w) new_user new_pass of
                 Inl e \<Rightarrow> Inl e
               | Inr (created, fs') \<Rightarrow>
                   Inr (w\<lparr>disk := fs'\<rparr>, [if created then AccountCreated else UsernameExists]))
            else Inr (w, [FillAllFields])
          else Inr (w, [])
      | Login user password clicked \<Rightarrow>
          if clicked then
            (case verify_user (disk w) user password of
               Inl e \<Rightarrow> Inl e
             | Inr ok \<Rightarrow>
                 if ok
                 then Inr (w\<lparr>session_state := \<lparr>logged_in = True, username = user\<rparr>\<rparr>,
                           [Welcome user])
                 else Inr (w, [InvalidCredentials]))
          else Inr (w, [])
      | _ \<Rightarrow> Inr (w, []))"

section \<open>Patients and doctors\<close>

text \<open>The options of the select box \<^verbatim>\<open>Assign Doctor\<close>.\<close>

fun names_of :: "json list \<Rightarrow> error + json list" where
  "names_of [] = Inr []"
| "names_of (d # ds) =
     (case getitem d ''name'' of
        Inl e \<Rightarrow> Inl e
      | Inr n \<Rightarrow> (case names_of ds of Inl e \<Rightarrow> Inl e | Inr ns \<Rightarrow> Inr (n # ns)))"

definition doctor_options :: "json \<Rightarrow> error + json list" where
  "doctor_options doctors =
     (if truthy doctors
      then (case iterate doctors of Inl e \<Rightarrow> Inl e | Inr ds \<Rightarrow> names_of ds)
      else Inr [JStr ''No doctor available''])"

text \<open>The dictionary \<^verbatim>\<open>data\<close> built for a new patient, and the one for a new doctor.\<close>

definition patient_data :: "int \<Rightarrow> patient_form \<Rightarrow> json" where
  "patient_data patient_id f =
     JDict [(''id'', JInt patient_id), (''name'', JStr (pf_name f)),
            (''age'', JInt (pf_age f)), (''gender'', JStr (gender_str (pf_gender f))),
            (''city'', JStr (pf_city f)), (''doctor'', pf_doctor f),
            (''timestamp'', JStr (pf_now f))]"

definition doctor_data :: "int \<Rightarrow> doctor_form \<Rightarrow> json" where
  "doctor_data doctor_id f =
     JDict [(''id'', JInt doctor_id), (''name'', JStr (df_name f)),
            (''specialization'', JStr (df_specialization f)),
            (''city'', JStr (df_city f)), (''timestamp'', JStr (df_now f))]"

text \<open>
  The block under \<^verbatim>\<open>if submitted\<close> of the page Add Patient. \<^verbatim>\<open>len\<close> raises
  \<^verbatim>\<open>TypeError\<close> on \<^verbatim>\<open>None\<close>, booleans and numbers; \<^verbatim>\<open>append\<close> raises
  \<^verbatim>\<open>AttributeError\<close> on dictionaries and strings.
\<close>

definition add_patient :: "files \<Rightarrow> json \<Rightarrow> patient_form \<Rightarrow> error + (files \<times> signal)" where
  "add_patient fs patients f =
     (if pf_name f \<noteq> [] \<and> pf_city f \<noteq> [] \<and> truthy (pf_doctor f)
         \<and> pf_doctor f \<noteq> JStr ''No doctor available''
      then
        (case patients of
           JList ps \<Rightarrow>
             (let patient_id = int (length ps) + 1;
                  data = patient_data patient_id f
              in Inr (save_records fs PATIENT_FILE (JList (ps @ [data])),
                      PatientAdded (pf_name f) patient_id))
         | JDict d \<Rightarrow> Inl AttributeError
         | JStr s \<Rightarrow> Inl AttributeError
         | _ \<Rightarrow> Inl TypeError)
      else Inr (fs, PatientIncomplete))"

definition add_doctor :: "files \<Rightarrow> json \<Rightarrow> doctor_form \<Rightarrow> error + (files \<times> signal)" where
  "add_doctor fs doctors f =
     (if df_name f \<noteq> [] \<and> df_specialization f \<noteq> [] \<and> df_city f \<noteq> []
      then
        (case doctors of
           JList ds \<Rightarrow>
             (let doctor_id = int (length ds) + 1;
                  data = doctor_data doctor_id f
              in Inr (save_records fs DOCTOR_FILE (JList (ds @ [data])),
                      DoctorAdded (df_name f) doctor_id))
         | JDict d \<Rightarrow> Inl AttributeError
         | JStr s \<Rightarrow> Inl AttributeError
         | _ \<Rightarrow> Inl TypeError)
      else Inr (fs, DoctorIncomplete))"

text \<open>
  \<^verbatim>\<open>[p for p in patients if search_name.lower() in p['name'].lower()]\<close>, with
  \<open>lower\<close> for \<^verbatim>\<open>str.lower\<close>: the first record without a name, or whose name is not
  a string, stops the comprehension.
\<close>

fun filter_by_name :: "(string \<Rightarrow> string) \<Rightarrow> string \<Rightarrow> json list \<Rightarrow> error + json list" where
  "filter_by_name lower search_name [] = Inr []"
| "filter_by_name lower search_name (p # ps) =
     (case getitem p ''name'' of
        Inl e \<Rightarrow> Inl e
      | Inr n \<Rightarrow>
          (case n of
             JStr s \<Rightarrow>
               (case filter_by_name lower search_name ps of
                  Inl e \<Rightarrow> Inl e
                | Inr r \<Rightarrow> Inr (if contains (lower search_name) (lower s) then p # r else r))
           | _ \<Rightarrow> Inl AttributeError))"

text \<open>The card of a record reads each of its keys; a missing one raises \<^verbatim>\<open>KeyError\<close>.\<close>

fun card :: "string list \<Rightarrow> json \<Rightarrow> error + unit" where
  "card [] p = Inr ()"
| "card (k # ks) p = (case getitem p k of Inl e \<Rightarrow> Inl e | Inr v \<Rightarrow> card ks p)"

fun cards :: "string list \<Rightarrow> json list \<Rightarrow> error + unit" where
  "cards ks [] = Inr ()"
| "cards ks (p # ps) = (case card ks p of Inl e \<Rightarrow> Inl e | Inr u \<Rightarrow> cards ks ps)"

definition patient_keys :: "string list" where
  "patient_keys = [''id'', ''name'', ''age'', ''gender'', ''city'', ''doctor'', ''timestamp'']"

definition doctor_keys :: "string list" where
  "doctor_keys = [''id'', ''name'', ''specialization'', ''city'', ''timestamp'']"

definition view_patients :: "(string \<Rightarrow> string) \<Rightarrow> json \<Rightarrow> string \<Rightarrow> error + signal" where
  "view_patients lower patients search_name =
     (if \<not> truthy patients then Inr NoPatients
      else
        (case iterate patients of
           Inl e \<Rightarrow> Inl e
         | Inr ps \<Rightarrow>
             (case filter_by_name lower search_name ps of
                Inl e \<Rightarrow> Inl e
              | Inr filtered_patients \<Rightarrow>
                  (case cards patient_keys filtered_patients of
                     Inl e \<Rightarrow> Inl e
                   | Inr u \<Rightarrow> Inr (PatientCards filtered_patients)))))"

definition view_doctors :: "(string \<Rightarrow> string) \<Rightarrow> json \<Rightarrow> string \<Rightarrow> error + signal" where
  "view_doctors lower doctors search_name =
     (if \<not> truthy doctors then Inr NoDoctors
      else
        (case iterate doctors of
           Inl e \<Rightarrow> Inl e
         | Inr ds \<Rightarrow>
             (case filter_by_name lower search_name ds of
                Inl e \<Rightarrow> Inl e
              | Inr filtered_doctors \<Rightarrow>
                  (case cards doctor_keys filtered_doctors of
                     Inl e \<Rightarrow> Inl e
                   | Inr u \<Rightarrow> Inr (DoctorCards filtered_doctors)))))"

section \<open>The main application and the script\<close>

text \<open>
  The pages behind the login. In the run of a successful login the navigation radio
  is new and shows Home.
\<close>

definition main_app :: "ui \<Rightarrow> json \<Rightarrow> json \<Rightarrow> world \<Rightarrow> error + (world \<times> signal list)" where
  "main_app inp patients doctors w =
     (case inp of
        AddPatient f submitted \<Rightarrow>
          (case doctor_options doctors of
             Inl e \<Rightarrow> Inl e
           | Inr options \<Rightarrow>
               if submitted then
                 (case add_patient (disk w) patients f of
                    Inl e \<Rightarrow> Inl e
                  | Inr (fs', s) \<Rightarrow> Inr (w\<lparr>disk := fs'\<rparr>, [s]))
               else Inr (w, []))
      | ViewPatients search_name \<Rightarrow>
          (case view_patients (str_lower (disk w)) patients search_name of
             Inl e \<Rightarrow> Inl e
           | Inr s \<Rightarrow> Inr (w, [s]))
      | AddDoctor f submitted \<Rightarrow>
          if submitted then
            (case add_doctor (disk w) doctors f of
               Inl e \<Rightarrow> Inl e
             | Inr (fs', s) \<Rightarrow> Inr (w\<lparr>disk := fs'\<rparr>, [s]))
          else Inr (w, [])
      | ViewDoctors search_name \<Rightarrow>
          (case view_doctors (str_lower (disk w)) doctors search_name of
             Inl e \<Rightarrow> Inl e
           | Inr s \<Rightarrow> Inr (w, [s]))
      | Logout clicked \<Rightarrow>
          if clicked
          then Inr (w\<lparr>session_state := \<lparr>logged_in = False, username = []\<rparr>\<rparr>, [LoggedOut])
          else Inr (w, [])
      | _ \<Rightarrow> Inr (w, [HomeCard]))"

text \<open>
  One run of \<^verbatim>\<open>app.py\<close>: both record files are loaded, the login page is handled when
  nobody is logged in, and the main application when somebody is, which includes the
  run in which the login succeeds. \<open>Inl\<close> is a run that stops on an exception.
\<close>

definition script :: "ui \<Rightarrow> world \<Rightarrow> error + (world \<times> signal list)" where
  "script inp w =
     (case load_records (disk w) PATIENT_FILE of
        Inl e \<Rightarrow> Inl e
      | Inr patients \<Rightarrow>
          (case load_records (disk w) DOCTOR_FILE of
             Inl e \<Rightarrow> Inl e
           | Inr doctors \<Rightarrow>
               (case (if \<not> logged_in (session_state w) then auth_page inp w else Inr (w, [])) of
                  Inl e \<Rightarrow> Inl e
                | Inr (w1, out1) \<Rightarrow>
                    if logged_in (session_state w1)
                    then (case main_app inp patients doctors w1 of
                            Inl e \<Rightarrow> Inl e
                          | Inr (w2, out2) \<Rightarrow> Inr (w2, out1 @ out2))
                    else Inr (w1, out1))))"

text \<open>
  A sequence of interactions. A run that raises shows the traceback and changes neither
  the files nor the session: every exception of the script is raised before its first
  write.
\<close>

definition step :: "world \<Rightarrow> ui \<Rightarrow> world" where
  "step w inp = (case script inp w of Inl e \<Rightarrow> w | Inr (w', out) \<Rightarrow> w')"

definition shown :: "world \<Rightarrow> ui \<Rightarrow> signal list" where
  "shown w inp = (case script inp w of Inl e \<Rightarrow> [] | Inr (w', out) \<Rightarrow> out)"

fun run :: "world \<Rightarrow> ui list \<Rightarrow> world" where
  "run w [] = w"
| "run w (inp # inps) = run (step w inp) inps"


section \<open>Definitions used in the statements\<close>

text \<open>
  \<^verbatim>\<open>str.lower\<close> on strings of ASCII characters: the letters A to Z are mapped to a
  to z and every other character is left as it is.
\<close>

definition lower_char :: "char \<Rightarrow> char" where
  "lower_char c =
     (let n = (of_char c :: nat) in if 65 \<le> n \<and> n \<le> 90 then char_of (n + 32) else c)"

definition ascii_lower :: "string \<Rightarrow> string" where
  "ascii_lower s = map lower_char s"

definition ascii :: "string \<Rightarrow> bool" where
  "ascii s = list_all (\<lambda>c. (of_char c :: nat) < 128) s"

text \<open>No file exists yet.\<close>

definition no_files :: files where
  "no_files = \<lparr>patients_json = None, doctors_json = None, users_json = None,
                headroom = (\<lambda>file. 900), str_lower = ascii_lower\<rparr>"

text \<open>
  What the credential file holds for a user name: the value under that key of the
  dictionary that \<^verbatim>\<open>load_users\<close> returns, \<open>None\<close> when there is no such key or
  the file cannot be read.
\<close>

definition stored :: "files \<Rightarrow> string \<Rightarrow> json option" where
  "stored fs u = (case load_users fs of Inl e \<Rightarrow> None | Inr users \<Rightarrow> map_of users u)"

text \<open>Concrete files for the worked examples.\<close>

definition bob_files :: files where
  "bob_files = save_users no_files [(''bob'', JStr (hash_password ''x''))]"

definition alice_files :: files where
  "alice_files = save_users no_files [(''alice'', JStr (hash_password ''secret1''))]"

definition alice_world :: world where
  "alice_world = \<lparr>disk = alice_files, session_state = initial_session\<rparr>"

definition bob_world :: world where
  "bob_world = \<lparr>disk = bob_files, session_state = initial_session\<rparr>"

text \<open>A credential file whose document is a list, and one whose document is an integer.\<close>

definition list_users_files :: files where
  "list_users_files = no_files\<lparr>users_json := Some (Doc (JList [JStr ''alice'']))\<rparr>"

definition big_users_files :: files where
  "big_users_files = no_files\<lparr>users_json := Some (Doc (JInt (10 ^ max_str_digits)))\<rparr>"

definition alice_in :: world where
  "alice_in = alice_world\<lparr>session_state := \<lparr>logged_in = True, username = ''alice''\<rparr>\<rparr>"

text \<open>
  The session of the world reached by the interactions \<open>inps\<close> was opened for the user
  name \<open>u\<close>: one of the interactions is a click on Login with that name, made when nobody
  was logged in, at a moment when \<^verbatim>\<open>verify_user\<close> accepted the name with the password
  typed and the name was a key of the credential file, and the session has stayed the
  one which that login opened through every interaction since.
\<close>

definition logged_in_as :: "world \<Rightarrow> ui list \<Rightarrow> string \<Rightarrow> bool" where
  "logged_in_as w0 inps u =
     (\<exists>before p after. inps = before @ Login u p True # after
        \<and> \<not> logged_in (session_state (run w0 before))
        \<and> verify_user (disk (run w0 before)) u p = Inr True
        \<and> stored (disk (run w0 before)) u \<noteq> None
        \<and> (\<forall>k\<le>length after.
              session_state (run w0 (before @ Login u p True # take k after))
                = \<lparr>logged_in = True, username = u\<rparr>))"


text \<open>
  A record of the data model: a dictionary that has every key of its kind, with a string
  for a name.
\<close>

definition record_with :: "string list \<Rightarrow> json \<Rightarrow> bool" where
  "record_with ks p \<longleftrightarrow>
     (case p of
        JDict d \<Rightarrow>
          list_all (\<lambda>k. map_of d k \<noteq> None) ks
          \<and> (case map_of d ''name'' of Some (JStr n) \<Rightarrow> True | _ \<Rightarrow> False)
      | _ \<Rightarrow> False)"

text \<open>
  The name of the record \<open>p\<close> contains the search string \<open>s\<close> when case is ignored: the
  lower-case search string occurs in the lower-case name as a run of consecutive
  characters, which is \<open>sublist\<close>.
\<close>

definition name_matches :: "(string \<Rightarrow> string) \<Rightarrow> string \<Rightarrow> json \<Rightarrow> bool" where
  "name_matches lower s p \<longleftrightarrow>
     (case getitem p ''name'' of
        Inr (JStr n) \<Rightarrow> sublist (lower s) (lower n)
      | _ \<Rightarrow> False)"

text \<open>A clinic for the worked examples: two doctors, then three patients.\<close>

definition grey_form :: doctor_form where
  "grey_form = \<lparr>df_name = ''Grey'', df_specialization = ''Surgery'', df_city = ''Seattle'',
                 df_now = ''2024-05-01 09:00:00.000000''\<rparr>"

definition sentinel_form :: doctor_form where
  "sentinel_form = \<lparr>df_name = ''No doctor available'', df_specialization = ''Oncology'',
                     df_city = ''Boston'', df_now = ''2024-05-01 09:05:00.000000''\<rparr>"

definition ann_form :: patient_form where
  "ann_form = \<lparr>pf_name = ''Ann'', pf_age = 34, pf_gender = Female, pf_city = ''Seattle'',
                pf_doctor = JStr ''Grey'', pf_now = ''2024-05-02 10:00:00.000000''\<rparr>"

definition anna_form :: patient_form where
  "anna_form = \<lparr>pf_name = ''Anna'', pf_age = 0, pf_gender = Other, pf_city = ''Tacoma'',
                 pf_doctor = JStr ''Grey'', pf_now = ''2024-05-02 10:30:00.000000''\<rparr>"

definition bob_form :: patient_form where
  "bob_form = \<lparr>pf_name = ''Bob'', pf_age = 120, pf_gender = Male, pf_city = ''Boston'',
                pf_doctor = JStr ''Grey'', pf_now = ''2024-05-02 11:00:00.000000''\<rparr>"

definition clinic :: world where
  "clinic = \<lparr>disk = save_records alice_files DOCTOR_FILE
                       (JList [doctor_data 1 grey_form, doctor_data 2 sentinel_form]),
              session_state = \<lparr>logged_in = True, username = ''alice''\<rparr>\<rparr>"

definition ward :: world where
  "ward = clinic\<lparr>disk := save_records (disk clinic) PATIENT_FILE
                    (JList [patient_data 1 ann_form, patient_data 2 anna_form,
                            patient_data 3 bob_form])\<rparr>"

section \<open>The credential store\<close>

lemma first_error_None: "first_error rs = None \<longleftrightarrow> (\<forall>r\<in>set rs. r = None)"
  by (induction rs rule: first_error.induct) simp_all

lemma scan_JDict:
  "scan (Suc n) (JDict d) = None \<longleftrightarrow> (\<forall>kv\<in>set d. scan n (snd kv) = None)"
  by (simp add: first_error_None)

lemma scan_JList:
  "scan (Suc n) (JList xs) = None \<longleftrightarrow> (\<forall>x\<in>set xs. scan n x = None)"
  by (simp add: first_error_None)

lemma scan_numeral:
  "scan (numeral k) (JList xs) = first_error (map (scan (pred_numeral k)) xs)"
  "scan (numeral k) (JDict d) = first_error (map (\<lambda>kv. scan (pred_numeral k) (snd kv)) d)"
  by (simp_all add: numeral_eq_Suc)

lemma set_update_subset: "set (AList.update k v al) \<subseteq> insert (k, v) (set al)"
  by (induction al) auto

lemma scan_update:
  assumes "scan (Suc n) (JDict d) = None"
  shows "scan (Suc n) (JDict (AList.update u (JStr h) d)) = None"
  unfolding scan_JDict
proof
  fix kv assume "kv \<in> set (AList.update u (JStr h) d)"
  then have "kv = (u, JStr h) \<or> kv \<in> set d"
    using set_update_subset [of u "JStr h" d] by auto
  with assms show "scan n (snd kv) = None"
    by (auto simp: first_error_None)
qed

lemma load_users_scan:
  "load_users fs = Inr d \<Longrightarrow> scan (Suc (Suc (headroom fs USER_FILE))) (JDict d) = None"
  by (auto simp: load_users_def json_load_def first_error_None
           split: option.splits content.splits json.splits sum.splits)

lemma load_users_save_users:
  "scan (Suc (Suc (headroom fs USER_FILE))) (JDict d) = None \<Longrightarrow> load_users (save_users fs d) = Inr d"
  by (simp add: load_users_def save_users_def save_records_def json_load_def)

lemma load_users_save_records:
  "name \<noteq> USER_FILE \<Longrightarrow> load_users (save_records fs name j) = load_users fs"
  by (cases name) (auto simp: load_users_def save_records_def split: option.splits)

lemma load_users_update:
  assumes "load_users fs = Inr users"
  shows "load_users (save_users fs (AList.update u (JStr h) users))
           = Inr (AList.update u (JStr h) users)"
proof -
  from assms have "scan (Suc (Suc (headroom fs USER_FILE))) (JDict users) = None"
    by (rule load_users_scan)
  then have "scan (Suc (Suc (headroom fs USER_FILE))) (JDict (AList.update u (JStr h) users)) = None"
    by (rule scan_update)
  then show ?thesis
    by (rule load_users_save_users)
qed

lemma add_user_True:
  assumes "load_users fs = Inr users" and "map_of users u = None"
  shows "add_user fs u p = Inr (True, save_users fs (AList.update u (JStr (hash_password p)) users))"
  using assms by (simp add: add_user_def)

lemma add_user_cases:
  assumes "add_user fs u p = Inr (ok, fs')"
  shows "(ok \<and> stored fs u = None \<and> stored fs' u = Some (JStr (hash_password p))
         \<and> (\<forall>u'. u' \<noteq> u \<longrightarrow> stored fs' u' = stored fs u'))
     \<or> (\<not> ok \<and> fs' = fs \<and> stored fs u \<noteq> None)"
proof -
  from assms obtain users where l: "load_users fs = Inr users"
    by (auto simp: add_user_def split: sum.splits)
  show ?thesis
  proof (cases "map_of users u")
    case None
    from add_user_True [OF l None, of p] load_users_update [OF l, of u "hash_password p"]
      assms l None
    show ?thesis
      by (auto simp: stored_def update_conv)
  next
    case (Some v)
    with assms l show ?thesis
      by (simp add: add_user_def stored_def)
  qed
qed

lemma add_user_keeps:
  "add_user fs u p = Inr (ok, fs') \<Longrightarrow> stored fs u' = Some v \<Longrightarrow> stored fs' u' = Some v"
  by (drule add_user_cases) (cases "u' = u"; auto)

lemma add_patient_users:
  "add_patient fs ps f = Inr (fs', s) \<Longrightarrow> load_users fs' = load_users fs"
  by (auto simp: add_patient_def Let_def load_users_save_records split: if_splits json.splits)

lemma add_doctor_users:
  "add_doctor fs ds f = Inr (fs', s) \<Longrightarrow> load_users fs' = load_users fs"
  by (auto simp: add_doctor_def Let_def load_users_save_records split: if_splits json.splits)

lemma auth_page_keeps:
  "auth_page inp w = Inr (w', out) \<Longrightarrow> stored (disk w) u = Some v \<Longrightarrow> stored (disk w') u = Some v"
  by (auto simp: auth_page_def split: ui.splits if_splits sum.splits dest: add_user_keeps)

lemma main_app_keeps:
  "main_app inp ps ds w = Inr (w', out) \<Longrightarrow> stored (disk w') u = stored (disk w) u"
  by (auto simp: main_app_def stored_def split: ui.splits if_splits sum.splits
           dest: add_patient_users add_doctor_users)

lemma script_Inr:
  assumes "script inp w = Inr (w', out)"
  obtains ps ds w1 out1 out2 where
    "load_records (disk w) PATIENT_FILE = Inr ps"
    "load_records (disk w) DOCTOR_FILE = Inr ds"
    "logged_in (session_state w) \<and> w1 = w \<and> out1 = []
       \<or> \<not> logged_in (session_state w) \<and> auth_page inp w = Inr (w1, out1)"
    "logged_in (session_state w1) \<and> main_app inp ps ds w1 = Inr (w', out2) \<and> out = out1 @ out2
       \<or> \<not> logged_in (session_state w1) \<and> w' = w1 \<and> out = out1"
proof (cases "logged_in (session_state w)")
  case True
  with assms that show ?thesis
    by (auto simp add: script_def split: sum.splits prod.splits)
next
  case False
  with assms that show ?thesis
    by (auto simp add: script_def split: sum.splits prod.splits if_splits)
qed

lemma script_keeps:
  assumes "script inp w = Inr (w', out)" and "stored (disk w) u = Some v"
  shows "stored (disk w') u = Some v"
proof -
  from assms(1) obtain ps ds w1 out1 out2 where
    a: "logged_in (session_state w) \<and> w1 = w \<and> out1 = []
       \<or> \<not> logged_in (session_state w) \<and> auth_page inp w = Inr (w1, out1)"
    and b: "logged_in (session_state w1) \<and> main_app inp ps ds w1 = Inr (w', out2) \<and> out = out1 @ out2
       \<or> \<not> logged_in (session_state w1) \<and> w' = w1 \<and> out = out1"
    by (rule script_Inr)
  from a assms(2) have "stored (disk w1) u = Some v"
    by (auto dest: auth_page_keeps)
  with b show ?thesis
    by (auto simp: main_app_keeps)
qed

lemma step_keeps: "stored (disk w) u = Some v \<Longrightarrow> stored (disk (step w inp)) u = Some v"
  by (auto simp: step_def split: sum.splits dest: script_keeps)

lemma run_keeps: "stored (disk w) u = Some v \<Longrightarrow> stored (disk (run w inps)) u = Some v"
  by (induction inps arbitrary: w) (auto dest: step_keeps)

lemma add_user_existing: "stored fs u = Some v \<Longrightarrow> add_user fs u p = Inr (False, fs)"
  by (auto simp: add_user_def stored_def split: sum.splits)

lemma verify_user_stored:
  "stored fs u = Some v \<Longrightarrow> verify_user fs u p = Inr (v = JStr (hash_password p))"
  by (auto simp: verify_user_def stored_def split: sum.splits)

lemma verify_user_absent:
  "load_users fs = Inr d \<Longrightarrow> stored fs u = None \<Longrightarrow> verify_user fs u p = Inr False"
  by (auto simp: verify_user_def stored_def split: sum.splits)

lemma add_user_no_files:
  "add_user no_files u p = Inr (True, save_users no_files [(u, JStr (hash_password p))])"
  by (simp add: add_user_def load_users_def no_files_def)

text \<open>
  Claim C1. Once \<^verbatim>\<open>add_user\<close> has returned \<^verbatim>\<open>True\<close> for a user name, a later
  \<^verbatim>\<open>add_user\<close> with that name and any password, after any interactions with the
  application in between, returns \<^verbatim>\<open>False\<close>, leaves the files as they are, and the
  value stored for the name is still the digest of the first password.
\<close>

theorem register_twice:
  assumes "add_user fs u p1 = Inr (True, fs1)" and "disk w = fs1"
  shows "add_user (disk (run w inps)) u p2 = Inr (False, disk (run w inps))
         \<and> stored (disk (run w inps)) u = Some (JStr (hash_password p1))"
proof -
  from assms have "stored (disk w) u = Some (JStr (hash_password p1))"
    by (auto dest: add_user_cases)
  then have "stored (disk (run w inps)) u = Some (JStr (hash_password p1))"
    by (rule run_keeps)
  then show ?thesis
    by (simp add: add_user_existing)
qed

theorem register_twice_witness:
  "add_user no_files ''bob'' ''x'' = Inr (True, bob_files)
   \<and> add_user (disk (run \<lparr>disk = bob_files, session_state = initial_session\<rparr>
                       [SignUp ''bob'' ''y'' True, Login ''bob'' ''x'' True]))
        ''bob'' ''y''
      = Inr (False, disk (run \<lparr>disk = bob_files, session_state = initial_session\<rparr>
                       [SignUp ''bob'' ''y'' True, Login ''bob'' ''x'' True]))
   \<and> stored (disk (run \<lparr>disk = bob_files, session_state = initial_session\<rparr>
                       [SignUp ''bob'' ''y'' True, Login ''bob'' ''x'' True])) ''bob''
      = Some (JStr (hash_password ''x''))"
proof -
  have h: "add_user no_files ''bob'' ''x'' = Inr (True, bob_files)"
    by (simp add: add_user_no_files bob_files_def)
  show ?thesis
    using h register_twice [OF h, of "\<lparr>disk = bob_files, session_state = initial_session\<rparr>"
                                 "[SignUp ''bob'' ''y'' True, Login ''bob'' ''x'' True]" "''y''"]
    by simp
qed

section \<open>Evaluating SHA-256\<close>

text \<open>
  The simplifier computes with numerals of type \<open>32 word\<close> once a rotation is written
  with shifts and every result is reduced modulo \<open>2 ^ 32\<close>.
\<close>

lemma rotr32:
  assumes "n < 32"
  shows "word_rotr n (x :: 32 word) = drop_bit n x OR push_bit (32 - n) x"
proof (rule bit_word_eqI)
  fix k assume "k < LENGTH(32)"
  then have k: "k < 32" by simp
  show "bit (word_rotr n x) k \<longleftrightarrow> bit (drop_bit n x OR push_bit (32 - n) x) k"
  proof (cases "k + n < 32")
    case True
    then have "(k + n) mod 32 = k + n" "\<not> 32 - n \<le> k" by simp_all
    with k show ?thesis by (simp add: bit_simps add.commute)
  next
    case False
    with k assms have m: "(k + n) mod 32 = k - (32 - n)" "32 - n \<le> k"
      by (simp_all add: mod_if)
    from False have "\<not> bit x (n + k)"
      by (auto dest: bit_imp_le_length)
    with k m show ?thesis by (simp add: bit_simps)
  qed
qed

lemma word_of_nat_mod32: "(word_of_nat n :: 32 word) = word_of_nat (n mod 4294967296)"
proof -
  have "(word_of_nat n :: 32 word) = word_of_nat (n mod 2 ^ 32)"
    by (simp add: word_of_nat_eq_iff take_bit_eq_mod)
  then show ?thesis
    by simp
qed

lemma word_of_int_mod32: "(word_of_int i :: 32 word) = word_of_int (i mod 4294967296)"
proof -
  have "(word_of_int i :: 32 word) = word_of_int (i mod 2 ^ 32)"
    by (simp add: word_of_int_eq_iff take_bit_eq_mod)
  then show ?thesis
    by simp
qed

lemma w32_reduce:
  "4294967296 \<le> (numeral k :: nat) \<Longrightarrow>
     (numeral k :: 32 word) = word_of_nat (numeral k mod 4294967296)"
  using word_of_nat_mod32 [of "numeral k"] by (simp only: of_nat_numeral)

lemma w32_neg:
  "(- numeral k :: 32 word) = word_of_int (- numeral k mod 4294967296)"
  using word_of_int_mod32 [of "- numeral k"] by (simp only: of_int_minus of_int_numeral)

lemma w32_minus1: "(- 1 :: 32 word) = 4294967295"
  by simp

lemmas w32 = w32_reduce w32_neg w32_minus1 rotr32

lemma replicate_num: "replicate (numeral k) x = x # replicate (pred_numeral k) x"
  by (simp add: numeral_eq_Suc)

lemma schedule_num:
  "schedule (numeral k) w =
     schedule (pred_numeral k)
       (w @ [sigma1 (w ! (length w - 2)) + w ! (length w - 7)
             + sigma0 (w ! (length w - 15)) + w ! (length w - 16)])"
  by (simp add: numeral_eq_Suc)

text \<open>The digest of the password \<^verbatim>\<open>x\<close>, step by step.\<close>

lemma pad_x: "pad (encode ''x'') =
    [120, 128, 0, 0, 0, 0,
     0, 0, 0, 0, 0, 0,
     0, 0, 0, 0, 0, 0,
     0, 0, 0, 0, 0, 0,
     0, 0, 0, 0, 0, 0,
     0, 0, 0, 0, 0, 0,
     0, 0, 0, 0, 0, 0,
     0, 0, 0, 0, 0, 0,
     0, 0, 0, 0, 0, 0,
     0, 0, 0, 0, 0, 0,
     0, 0, 0, 8]"
  by (simp add: pad_def encode_def be_bytes_def upt_conv_Cons replicate_num)

lemma blocks_x: "blocks (pad (encode ''x'')) = [pad (encode ''x'')]"
  by (simp add: pad_x blocks_def)

lemma words_x: "block_words (pad (encode ''x'')) =
    [2021654528, 0, 0, 0, 0, 0,
     0, 0, 0, 0, 0, 0,
     0, 0, 0, 8]"
  by (simp add: pad_x block_words_def be_word_def upt_conv_Cons)

lemma schedule_x: "schedule 48 (block_words (pad (encode ''x''))) =
    [2021654528, 0, 0, 0, 0, 0,
     0, 0, 0, 0, 0, 0,
     0, 0, 0, 8, 2021654528, 327680,
     1971024, 536871234, 3418490760, 8475648, 1124568096, 4177534981,
     931784704, 341448440, 3910008977, 359146923, 3236027942, 1500331568,
     3723075617, 2150859516, 2969464858, 3203193819, 2344153889, 1621682451,
     3793127511, 4094548217, 1965560327, 2113633090, 2029180404, 834715653,
     3623783194, 2443265322, 1843327394, 2293781290, 211574689, 3698406187,
     490561120, 3311074907, 853938067, 15903757, 3428712410, 150987924,
     3880940780, 4238751076, 4017808925, 3462345068, 524655193, 3518015180,
     1175202895, 200890185, 2650706160, 3779152477]"
  by (simp add: words_x schedule_num sigma0_def sigma1_def w32)

lemma rounds_x:
  "foldl round256 H256 (zip K256 (schedule 48 (block_words (pad (encode ''x''))))) =
     (3278319579, 4223599039, 3304294711, 1448885691,
      2000993586, 4114046031, 3802246508, 909736808)"
  by (simp add: schedule_x K256_def H256_def Sigma0_def Sigma1_def Ch_def Maj_def w32)

lemma sha256_x: "sha256 (encode ''x'') =
     (762385986, 3072766020, 23231657, 4222366453,
      3360886705, 2419901659, 36013847, 2451196033)"
  by (simp add: sha256_def blocks_x process_block_def rounds_x) (simp add: H256_def w32)

lemma hash_x:
  "hash_password ''x'' = ''2d711642b726b04401627ca9fbac32f5c8530fb1903cc4db02258717921a4881''"
  by (simp add: hash_password_def sha256_x hex32_def hex_digit_def upt_conv_Cons)

text \<open>The digest of the password \<^verbatim>\<open>y\<close>.\<close>

lemma pad_y: "pad (encode ''y'') =
    [121, 128, 0, 0, 0, 0,
     0, 0, 0, 0, 0, 0,
     0, 0, 0, 0, 0, 0,
     0, 0, 0, 0, 0, 0,
     0, 0, 0, 0, 0, 0,
     0, 0, 0, 0, 0, 0,
     0, 0, 0, 0, 0, 0,
     0, 0, 0, 0, 0, 0,
     0, 0, 0, 0, 0, 0,
     0, 0, 0, 0, 0, 0,
     0, 0, 0, 8]"
  by (simp add: pad_def encode_def be_bytes_def upt_conv_Cons replicate_num)

lemma blocks_y: "blocks (pad (encode ''y'')) = [pad (encode ''y'')]"
  by (simp add: pad_y blocks_def)

lemma words_y: "block_words (pad (encode ''y'')) =
    [2038431744, 0, 0, 0, 0, 0,
     0, 0, 0, 0, 0, 0,
     0, 0, 0, 8]"
  by (simp add: pad_y block_words_def be_word_def upt_conv_Cons)

lemma schedule_y: "schedule 48 (block_words (pad (encode ''y''))) =
    [2038431744, 0, 0, 0, 0, 0,
     0, 0, 0, 0, 0, 0,
     0, 0, 0, 8, 2038431744, 327680,
     1987568, 536871234, 3817211800, 8475648, 3272051770, 4194312197,
     934279168, 341513784, 588118046, 3445892603, 1132817049, 1501123153,
     571574510, 3404197935, 3275624801, 2654180559, 406788241, 3367047218,
     23929551, 1537752150, 3756208892, 3482315567, 2351393677, 2071746757,
     731661898, 3599240696, 1209920843, 4212192107, 4152558063, 514814291,
     2306622035, 124255651, 3499426580, 3905943140, 3341987434, 2280435850,
     3187780979, 4160869976, 175095633, 2661349872, 615424073, 3864921488,
     1216216206, 2092643617, 2869314040, 3421798972]"
  by (simp add: words_y schedule_num sigma0_def sigma1_def w32)

lemma rounds_y:
  "foldl round256 H256 (zip K256 (schedule 48 (block_words (pad (encode ''y''))))) =
     (938671567, 2095927555, 1351637020, 3542474950,
      1901711633, 2787452011, 2075391750, 3043484641)"
  by (simp add: schedule_y K256_def H256_def Sigma0_def Sigma1_def Ch_def Maj_def w32)

lemma sha256_y: "sha256 (encode ''y'') =
     (2717705270, 945094536, 2365541262, 2020988416,
      3261604752, 1093307639, 2604126385, 289976570)"
  by (simp add: sha256_def blocks_y process_block_def rounds_y) (simp add: H256_def w32)

lemma hash_y:
  "hash_password ''y'' = ''a1fce4363854ff888cff4b8e7875d600c2682390412a8cf79b37d0b11148b0fa''"
  by (simp add: hash_password_def sha256_y hex32_def hex_digit_def upt_conv_Cons)

section \<open>Verification\<close>

lemma run_bob:
  "run bob_world [SignUp ''bob'' ''y'' True, Login ''bob'' ''x'' True, Logout True]
     = \<lparr>disk = bob_files, session_state = \<lparr>logged_in = False, username = []\<rparr>\<rparr>"
  by (simp add: bob_world_def bob_files_def step_def script_def auth_page_def main_app_def
        add_user_def verify_user_def load_users_def load_records_def json_load_def
        save_users_def save_records_def no_files_def initial_session_def scan_numeral)

text \<open>
  Claim C2. After \<^verbatim>\<open>add_user\<close> has returned \<^verbatim>\<open>True\<close> for a name \<open>u\<close> and a
  password \<open>p\<close>, and after any later interactions with the application, which include
  further attempts to sign up with that name: \<^verbatim>\<open>verify_user\<close> is true for \<open>u\<close> and
  \<open>p\<close>; it is false for \<open>u\<close> and every other password \<open>p'\<close>, where the collision
  resistance that the specification asks of the hash is the hypothesis that SHA-256 does
  not map \<open>p\<close> and \<open>p'\<close> to one digest; and it is false for every name that is not a
  key of the credential file, with every password.
\<close>

theorem verification:
  assumes "add_user fs u p = Inr (True, fs1)" and "disk w = fs1"
  shows "verify_user (disk (run w inps)) u p = Inr True
         \<and> (p' \<noteq> p \<and> inj_on hash_password {p, p'}
              \<longrightarrow> verify_user (disk (run w inps)) u p' = Inr False)
         \<and> (stored (disk (run w inps)) u2 = None
              \<longrightarrow> verify_user (disk (run w inps)) u2 q = Inr False)"
proof -
  from assms have "stored (disk w) u = Some (JStr (hash_password p))"
    by (auto dest: add_user_cases)
  then have s: "stored (disk (run w inps)) u = Some (JStr (hash_password p))"
    by (rule run_keeps)
  then obtain d where "load_users (disk (run w inps)) = Inr d"
    by (auto simp: stored_def split: sum.splits)
  with s show ?thesis
    by (auto simp: verify_user_stored verify_user_absent inj_on_def)
qed

theorem verification_witness:
  "add_user no_files ''bob'' ''x'' = Inr (True, bob_files)
   \<and> ''y'' \<noteq> ''x'' \<and> inj_on hash_password {''x'', ''y''}
   \<and> verify_user
        (disk (run bob_world [SignUp ''bob'' ''y'' True, Login ''bob'' ''x'' True, Logout True]))
        ''bob'' ''x'' = Inr True
   \<and> verify_user
        (disk (run bob_world [SignUp ''bob'' ''y'' True, Login ''bob'' ''x'' True, Logout True]))
        ''bob'' ''y'' = Inr False
   \<and> stored
        (disk (run bob_world [SignUp ''bob'' ''y'' True, Login ''bob'' ''x'' True, Logout True]))
        ''eve'' = None
   \<and> verify_user
        (disk (run bob_world [SignUp ''bob'' ''y'' True, Login ''bob'' ''x'' True, Logout True]))
        ''eve'' ''x'' = Inr False"
proof -
  have h: "add_user no_files ''bob'' ''x'' = Inr (True, bob_files)"
    by (simp add: add_user_no_files bob_files_def)
  have d: "disk bob_world = bob_files"
    by (simp add: bob_world_def)
  have i: "inj_on hash_password {''x'', ''y''}"
    by (simp add: hash_x hash_y)
  have e: "stored
        (disk (run bob_world [SignUp ''bob'' ''y'' True, Login ''bob'' ''x'' True, Logout True]))
        ''eve'' = None"
    by (simp only: run_bob)
       (simp add: stored_def bob_files_def load_users_def save_users_def save_records_def
          json_load_def no_files_def scan_numeral)
  show ?thesis
    using h i e
      verification [OF h d,
        of "[SignUp ''bob'' ''y'' True, Login ''bob'' ''x'' True, Logout True]"
           "''y''" "''eve''" "''x''"]
    by simp
qed

section \<open>A credential file that is not an object\<close>

lemma scan_singleton: "scan (Suc (Suc n)) (JDict [(u, JStr h)]) = None"
  by simp

text \<open>
  Claim C10, amended. When the credential file holds a JSON document whose root is not an
  object and which \<^verbatim>\<open>json.load\<close> can load, one with no integer of more than 4300
  digits and nested no deeper than the interpreter allows, \<^verbatim>\<open>load_users\<close> returns the
  empty dictionary and not an error. So \<^verbatim>\<open>verify_user\<close> is false for every user name
  and password, and \<^verbatim>\<open>add_user\<close> succeeds for every user name and replaces the
  document by the object with that one entry. These are the answers, and the file, that
  the same calls give when the credential file does not exist. The roots covered are
  \<^verbatim>\<open>null\<close>, booleans, integers, floats, strings and lists.
\<close>

theorem non_object_users:
  assumes "users_json fs = Some (Doc j)" and "\<forall>d. j \<noteq> JDict d"
    and "scan (2 + headroom fs USER_FILE) j = None"
  shows "load_users fs = Inr []
         \<and> verify_user fs u p = Inr False
         \<and> add_user fs u p
             = Inr (True, fs\<lparr>users_json := Some (Doc (JDict [(u, JStr (hash_password p))]))\<rparr>)
         \<and> load_users (fs\<lparr>users_json := None\<rparr>) = Inr []
         \<and> verify_user (fs\<lparr>users_json := None\<rparr>) u p = Inr False
         \<and> add_user (fs\<lparr>users_json := None\<rparr>) u p
             = Inr (True, fs\<lparr>users_json := Some (Doc (JDict [(u, JStr (hash_password p))]))\<rparr>)"
proof -
  from assms have l: "load_users fs = Inr []"
    by (cases j) (simp_all add: load_users_def json_load_def)
  have n: "load_users (fs\<lparr>users_json := None\<rparr>) = Inr []"
    by (simp add: load_users_def)
  from l n show ?thesis
    by (simp add: verify_user_def add_user_def save_users_def save_records_def)
qed

theorem non_object_users_witness:
  "users_json list_users_files = Some (Doc (JList [JStr ''alice'']))
   \<and> (\<forall>d. JList [JStr ''alice''] \<noteq> JDict d)
   \<and> scan (2 + headroom list_users_files USER_FILE) (JList [JStr ''alice'']) = None
   \<and> load_users list_users_files = Inr []
   \<and> verify_user list_users_files ''alice'' ''secret1'' = Inr False
   \<and> add_user list_users_files ''alice'' ''secret1''
       = Inr (True, list_users_files
                \<lparr>users_json := Some (Doc (JDict [(''alice'', JStr (hash_password ''secret1''))]))\<rparr>)"
proof -
  have h: "users_json list_users_files = Some (Doc (JList [JStr ''alice'']))"
    by (simp add: list_users_files_def)
  have n: "\<forall>d. JList [JStr ''alice''] \<noteq> JDict d"
    by simp
  have s: "scan (2 + headroom list_users_files USER_FILE) (JList [JStr ''alice'']) = None"
    by (simp add: list_users_files_def no_files_def scan_numeral)
  show ?thesis
    using h s non_object_users [OF h n s, of "''alice''" "''secret1''"]
    by simp
qed

text \<open>
  The claim C10 as stated asks only that the document be valid JSON. The integer
  \<open>10 ^ 4300\<close>, written with 4301 digits, is a valid document whose root is not an
  object: \<^verbatim>\<open>json.load\<close> raises \<^verbatim>\<open>ValueError\<close> on it, nothing in
  \<^verbatim>\<open>load_users\<close> catches that, and so \<^verbatim>\<open>load_users\<close>, \<^verbatim>\<open>verify_user\<close> and
  \<^verbatim>\<open>add_user\<close> all raise where the claim has the empty dictionary, \<^verbatim>\<open>False\<close> and
  \<^verbatim>\<open>True\<close>.
\<close>

theorem non_object_users_counterexample:
  "users_json big_users_files = Some (Doc (JInt (10 ^ max_str_digits)))
   \<and> (\<forall>d. JInt (10 ^ max_str_digits) \<noteq> JDict d)
   \<and> load_users big_users_files = Inl ValueError
   \<and> verify_user big_users_files ''alice'' ''secret1'' = Inl ValueError
   \<and> add_user big_users_files ''alice'' ''secret1'' = Inl ValueError"
  by (simp add: big_users_files_def no_files_def load_users_def json_load_def verify_user_def
        add_user_def)

section \<open>Files that do not exist\<close>

text \<open>
  Claim C5. A file that does not exist loads as an empty container of the right shape:
  \<^verbatim>\<open>load_records\<close> gives the empty list and \<^verbatim>\<open>load_users\<close> the empty dictionary,
  as values and not as errors. Loading is a function of the files and returns no files,
  so it gives the same answer at every call.
\<close>

theorem load_on_absence:
  "(read_file fs file = None \<longrightarrow> load_records fs file = Inr (JList []))
   \<and> (read_file fs USER_FILE = None \<longrightarrow> load_users fs = Inr [])"
  by (simp add: load_records_def load_users_def)

theorem load_on_absence_witness:
  "read_file no_files PATIENT_FILE = None
   \<and> read_file no_files USER_FILE = None
   \<and> load_records no_files PATIENT_FILE = Inr (JList [])
   \<and> load_users no_files = Inr []"
  using load_on_absence [of no_files PATIENT_FILE]
  by (simp add: no_files_def)

section \<open>The session\<close>

lemma verify_user_True:
  "verify_user fs u p = Inr True \<Longrightarrow> stored fs u = Some (JStr (hash_password p))"
  by (auto simp: verify_user_def stored_def split: sum.splits option.splits)

lemma main_app_Login: "main_app (Login u p c) ps ds w = Inr (w, [HomeCard])"
  by (simp add: main_app_def)

lemma step_Login:
  assumes "load_records (disk w) PATIENT_FILE = Inr ps"
    and "load_records (disk w) DOCTOR_FILE = Inr ds"
    and "\<not> logged_in (session_state w)"
  shows "step w (Login u p True) =
           (if verify_user (disk w) u p = Inr True
            then w\<lparr>session_state := \<lparr>logged_in = True, username = u\<rparr>\<rparr> else w)"
    and "shown w (Login u p True) =
           (if verify_user (disk w) u p = Inr True then [Welcome u, HomeCard]
            else if verify_user (disk w) u p = Inr False then [InvalidCredentials] else [])"
  using assms
  by (auto simp: step_def shown_def script_def auth_page_def main_app_Login split: sum.splits)

lemma step_Logout:
  assumes "load_records (disk w) PATIENT_FILE = Inr ps"
    and "load_records (disk w) DOCTOR_FILE = Inr ds"
    and "logged_in (session_state w)"
  shows "step w (Logout True) = w\<lparr>session_state := \<lparr>logged_in = False, username = []\<rparr>\<rparr>"
    and "shown w (Logout True) = [LoggedOut]"
  using assms
  by (auto simp: step_def shown_def script_def main_app_def split: sum.splits)

lemma alice_loads:
  "load_records (disk alice_world) PATIENT_FILE = Inr (JList [])"
  "load_records (disk alice_world) DOCTOR_FILE = Inr (JList [])"
  "load_records (disk alice_in) PATIENT_FILE = Inr (JList [])"
  "load_records (disk alice_in) DOCTOR_FILE = Inr (JList [])"
  by (simp_all add: alice_in_def alice_world_def alice_files_def load_records_def save_users_def
        save_records_def no_files_def)

lemma alice_users:
  "load_users (disk alice_world) = Inr [(''alice'', JStr (hash_password ''secret1''))]"
  by (simp add: alice_world_def alice_files_def load_users_def save_users_def save_records_def
        json_load_def no_files_def scan_numeral)

lemma alice_verify:
  "verify_user (disk alice_world) ''alice'' ''secret1'' = Inr True"
  "verify_user (disk alice_world) ''eve'' ''secret1'' = Inr False"
  by (simp_all add: verify_user_def alice_users)

text \<open>
  Claim C4. In a run that gets past the loading of the two record files, with which the
  script begins: when nobody is logged in, a click on Login with a name and a password
  opens the session for that name exactly when \<^verbatim>\<open>verify_user\<close> returns \<^verbatim>\<open>True\<close>
  for them, and shows the welcome and the home page; otherwise the files and the session
  are left as they are, and the message about invalid credentials is shown when
  \<^verbatim>\<open>verify_user\<close> returns \<^verbatim>\<open>False\<close>. When somebody is logged in, a click on
  Logout closes the session and empties the user name, whoever it is.
\<close>

theorem session_transitions:
  assumes "load_records (disk w) PATIENT_FILE = Inr ps"
    and "load_records (disk w) DOCTOR_FILE = Inr ds"
  shows "(\<not> logged_in (session_state w) \<longrightarrow>
            step w (Login u p True) =
              (if verify_user (disk w) u p = Inr True
               then w\<lparr>session_state := \<lparr>logged_in = True, username = u\<rparr>\<rparr> else w)
            \<and> shown w (Login u p True) =
              (if verify_user (disk w) u p = Inr True then [Welcome u, HomeCard]
               else if verify_user (disk w) u p = Inr False then [InvalidCredentials] else []))
         \<and> (logged_in (session_state w) \<longrightarrow>
            step w (Logout True) = w\<lparr>session_state := \<lparr>logged_in = False, username = []\<rparr>\<rparr>
            \<and> shown w (Logout True) = [LoggedOut])"
  using step_Login [OF assms] step_Logout [OF assms] by simp

theorem session_transitions_witness:
  "load_records (disk alice_world) PATIENT_FILE = Inr (JList [])
   \<and> load_records (disk alice_world) DOCTOR_FILE = Inr (JList [])
   \<and> \<not> logged_in (session_state alice_world)
   \<and> verify_user (disk alice_world) ''alice'' ''secret1'' = Inr True
   \<and> step alice_world (Login ''alice'' ''secret1'' True) = alice_in
   \<and> shown alice_world (Login ''alice'' ''secret1'' True) = [Welcome ''alice'', HomeCard]
   \<and> verify_user (disk alice_world) ''eve'' ''secret1'' = Inr False
   \<and> step alice_world (Login ''eve'' ''secret1'' True) = alice_world
   \<and> shown alice_world (Login ''eve'' ''secret1'' True) = [InvalidCredentials]
   \<and> load_records (disk alice_in) PATIENT_FILE = Inr (JList [])
   \<and> load_records (disk alice_in) DOCTOR_FILE = Inr (JList [])
   \<and> logged_in (session_state alice_in)
   \<and> step alice_in (Logout True) = alice_world
   \<and> shown alice_in (Logout True) = [LoggedOut]"
proof -
  have a: "\<not> logged_in (session_state alice_world)" "logged_in (session_state alice_in)"
    by (simp_all add: alice_in_def alice_world_def initial_session_def)
  have e: "alice_world\<lparr>session_state := \<lparr>logged_in = True, username = ''alice''\<rparr>\<rparr> = alice_in"
    "alice_in\<lparr>session_state := \<lparr>logged_in = False, username = []\<rparr>\<rparr> = alice_world"
    by (simp_all add: alice_in_def alice_world_def initial_session_def)
  show ?thesis
    using a e alice_verify alice_loads
      session_transitions [OF alice_loads(1,2), of "''alice''" "''secret1''"]
      session_transitions [OF alice_loads(1,2), of "''eve''" "''secret1''"]
      session_transitions [OF alice_loads(3,4), of "''alice''" "''secret1''"]
    by simp
qed

lemma run_append: "run w (xs @ ys) = run (run w xs) ys"
  by (induction xs arbitrary: w) simp_all

lemma run_snoc: "run w (xs @ [x]) = step (run w xs) x"
  by (simp add: run_append)

lemma add_user_no_empty:
  "add_user fs u p = Inr (ok, fs') \<Longrightarrow> u \<noteq> [] \<Longrightarrow> stored fs [] = None \<Longrightarrow> stored fs' [] = None"
  by (drule add_user_cases) auto

lemma auth_page_no_empty:
  "auth_page inp w = Inr (w', out) \<Longrightarrow> stored (disk w) [] = None \<Longrightarrow> stored (disk w') [] = None"
  by (auto simp: auth_page_def split: ui.splits if_splits sum.splits dest: add_user_no_empty)

lemma script_no_empty:
  assumes "script inp w = Inr (w', out)" and "stored (disk w) [] = None"
  shows "stored (disk w') [] = None"
proof -
  from assms(1) obtain ps ds w1 out1 out2 where
    a: "logged_in (session_state w) \<and> w1 = w \<and> out1 = []
       \<or> \<not> logged_in (session_state w) \<and> auth_page inp w = Inr (w1, out1)"
    and b: "logged_in (session_state w1) \<and> main_app inp ps ds w1 = Inr (w', out2) \<and> out = out1 @ out2
       \<or> \<not> logged_in (session_state w1) \<and> w' = w1 \<and> out = out1"
    by (rule script_Inr)
  from a assms(2) have "stored (disk w1) [] = None"
    by (auto dest: auth_page_no_empty)
  with b show ?thesis
    by (auto simp: main_app_keeps)
qed

lemma step_no_empty: "stored (disk w) [] = None \<Longrightarrow> stored (disk (step w inp)) [] = None"
  by (auto simp: step_def split: sum.splits dest: script_no_empty)

lemma run_no_empty: "stored (disk w) [] = None \<Longrightarrow> stored (disk (run w inps)) [] = None"
  by (induction inps arbitrary: w) (auto dest: step_no_empty)

text \<open>What one run can do to the session.\<close>

lemma auth_page_session:
  "auth_page inp w = Inr (w', out) \<Longrightarrow>
     session_state w' = session_state w
     \<or> (\<exists>u p. inp = Login u p True \<and> verify_user (disk w) u p = Inr True
              \<and> session_state w' = \<lparr>logged_in = True, username = u\<rparr>)"
  by (auto simp: auth_page_def split: ui.splits if_splits sum.splits)

lemma main_app_session:
  "main_app inp ps ds w = Inr (w', out) \<Longrightarrow>
     session_state w' = session_state w
     \<or> session_state w' = \<lparr>logged_in = False, username = []\<rparr>"
  by (auto simp: main_app_def split: ui.splits if_splits sum.splits)

lemma main_app_Login_session:
  "main_app (Login u p c) ps ds w = Inr (w', out) \<Longrightarrow> session_state w' = session_state w"
  by (auto simp: main_app_def)

lemma script_session:
  assumes "script inp w = Inr (w', out)"
  shows "session_state w' = session_state w
     \<or> (\<exists>u p. inp = Login u p True \<and> \<not> logged_in (session_state w)
              \<and> verify_user (disk w) u p = Inr True
              \<and> session_state w' = \<lparr>logged_in = True, username = u\<rparr>)
     \<or> session_state w' = \<lparr>logged_in = False, username = []\<rparr>"
proof -
  from assms obtain ps ds w1 out1 out2 where
    a: "logged_in (session_state w) \<and> w1 = w \<and> out1 = []
       \<or> \<not> logged_in (session_state w) \<and> auth_page inp w = Inr (w1, out1)"
    and b: "logged_in (session_state w1) \<and> main_app inp ps ds w1 = Inr (w', out2) \<and> out = out1 @ out2
       \<or> \<not> logged_in (session_state w1) \<and> w' = w1 \<and> out = out1"
    by (rule script_Inr)
  from a consider
      (same) "session_state w1 = session_state w"
    | (login) u p where "inp = Login u p True" "\<not> logged_in (session_state w)"
        "verify_user (disk w) u p = Inr True"
        "session_state w1 = \<lparr>logged_in = True, username = u\<rparr>"
    by (auto dest: auth_page_session)
  then show ?thesis
  proof cases
    case same
    with b show ?thesis by (auto dest: main_app_session)
  next
    case login
    with b show ?thesis by (auto dest: main_app_Login_session)
  qed
qed

lemma step_session:
  "session_state (step w inp) = session_state w
     \<or> (\<exists>u p. inp = Login u p True \<and> \<not> logged_in (session_state w)
              \<and> verify_user (disk w) u p = Inr True
              \<and> session_state (step w inp) = \<lparr>logged_in = True, username = u\<rparr>)
     \<or> session_state (step w inp) = \<lparr>logged_in = False, username = []\<rparr>"
proof (cases "script inp w")
  case (Inl e)
  then show ?thesis by (simp add: step_def)
next
  case (Inr r)
  then obtain w' out where "script inp w = Inr (w', out)" by (cases r) auto
  then show ?thesis
    using script_session [of inp w w' out] by (simp add: step_def)
qed

lemma logged_in_as_snoc:
  assumes "logged_in_as w0 inps u"
    and "session_state (step (run w0 inps) inp) = session_state (run w0 inps)"
  shows "logged_in_as w0 (inps @ [inp]) u"
proof -
  from assms(1) obtain before p after where
    i: "inps = before @ Login u p True # after"
    and n: "\<not> logged_in (session_state (run w0 before))"
    and v: "verify_user (disk (run w0 before)) u p = Inr True"
    and s: "stored (disk (run w0 before)) u \<noteq> None"
    and a: "\<forall>k\<le>length after.
              session_state (run w0 (before @ Login u p True # take k after))
                = \<lparr>logged_in = True, username = u\<rparr>"
    unfolding logged_in_as_def by blast
  from a i have l: "session_state (run w0 inps) = \<lparr>logged_in = True, username = u\<rparr>"
    by (auto dest: spec [of _ "length after"])
  have "\<forall>k\<le>length (after @ [inp]).
          session_state (run w0 (before @ Login u p True # take k (after @ [inp])))
            = \<lparr>logged_in = True, username = u\<rparr>"
  proof (intro allI impI)
    fix k assume k: "k \<le> length (after @ [inp])"
    show "session_state (run w0 (before @ Login u p True # take k (after @ [inp])))
            = \<lparr>logged_in = True, username = u\<rparr>"
    proof (cases "k \<le> length after")
      case True
      with a show ?thesis by simp
    next
      case False
      with k have "before @ Login u p True # take k (after @ [inp]) = inps @ [inp]"
        using i by simp
      with l assms(2) show ?thesis
        by (simp add: run_snoc)
    qed
  qed
  with n v s have
    "inps @ [inp] = before @ Login u p True # (after @ [inp])
     \<and> \<not> logged_in (session_state (run w0 before))
     \<and> verify_user (disk (run w0 before)) u p = Inr True
     \<and> stored (disk (run w0 before)) u \<noteq> None
     \<and> (\<forall>k\<le>length (after @ [inp]).
              session_state (run w0 (before @ Login u p True # take k (after @ [inp])))
                = \<lparr>logged_in = True, username = u\<rparr>)"
    using i by simp
  then show ?thesis
    unfolding logged_in_as_def by blast
qed

lemma logged_in_as_last:
  assumes "verify_user (disk (run w0 inps)) u p = Inr True"
    and "\<not> logged_in (session_state (run w0 inps))"
    and "session_state (step (run w0 inps) (Login u p True)) = \<lparr>logged_in = True, username = u\<rparr>"
  shows "logged_in_as w0 (inps @ [Login u p True]) u"
proof -
  from assms(1) have "stored (disk (run w0 inps)) u \<noteq> None"
    by (auto dest: verify_user_True)
  with assms have
    "inps @ [Login u p True] = inps @ Login u p True # []
     \<and> \<not> logged_in (session_state (run w0 inps))
     \<and> verify_user (disk (run w0 inps)) u p = Inr True
     \<and> stored (disk (run w0 inps)) u \<noteq> None
     \<and> (\<forall>k\<le>length ([] :: ui list).
              session_state (run w0 (inps @ Login u p True # take k []))
                = \<lparr>logged_in = True, username = u\<rparr>)"
    by (simp add: run_snoc)
  then show ?thesis
    unfolding logged_in_as_def by blast
qed

text \<open>
  Claim C3. The credential file at the start has no entry for the empty user name, as in
  the data model of the specification, where a user name is not empty; it may be absent.
  Then after every sequence of interactions that begins with a new session, the user name
  of the session is not empty exactly when somebody is logged in, and when somebody is,
  the session was opened for that name by a login at a moment when the name was a key of
  the credential file. The sign-up page refuses an empty user name, so the credential
  file still has no entry for it afterwards.
\<close>

theorem session_invariant:
  assumes "stored (disk w0) [] = None" and "session_state w0 = initial_session"
  shows "(username (session_state (run w0 inps)) \<noteq> [] \<longleftrightarrow> logged_in (session_state (run w0 inps)))
         \<and> (logged_in (session_state (run w0 inps)) \<longrightarrow>
              logged_in_as w0 inps (username (session_state (run w0 inps))))
         \<and> stored (disk (run w0 inps)) [] = None"
proof (induction inps rule: rev_induct)
  case Nil
  from assms show ?case by (simp add: initial_session_def)
next
  case (snoc inp inps)
  let ?w = "run w0 inps"
  have ne: "stored (disk ?w) [] = None"
    using assms(1) by (rule run_no_empty)
  have ne': "stored (disk (run w0 (inps @ [inp]))) [] = None"
    using assms(1) by (rule run_no_empty)
  from step_session [of ?w inp] consider
      (same) "session_state (step ?w inp) = session_state ?w"
    | (login) u p where "inp = Login u p True" "\<not> logged_in (session_state ?w)"
        "verify_user (disk ?w) u p = Inr True"
        "session_state (step ?w inp) = \<lparr>logged_in = True, username = u\<rparr>"
    | (logout) "session_state (step ?w inp) = \<lparr>logged_in = False, username = []\<rparr>"
    by blast
  then show ?case
  proof cases
    case same
    with snoc ne' show ?thesis
      by (auto simp: run_snoc dest: logged_in_as_snoc)
  next
    case login
    from login(3) have "stored (disk ?w) u \<noteq> None"
      by (auto dest: verify_user_True)
    with ne have "u \<noteq> []" by auto
    moreover from login have "logged_in_as w0 (inps @ [inp]) u"
      by (auto intro: logged_in_as_last)
    ultimately show ?thesis
      using login ne' by (simp add: run_snoc)
  next
    case logout
    with ne' show ?thesis by (simp add: run_snoc)
  qed
qed

lemma alice_no_empty: "stored (disk alice_world) [] = None"
  by (simp add: stored_def alice_users)

theorem session_invariant_witness:
  "stored (disk alice_world) [] = None
   \<and> session_state alice_world = initial_session
   \<and> run alice_world [Login ''eve'' ''secret1'' True, Login ''alice'' ''secret1'' True] = alice_in
   \<and> username (session_state alice_in) = ''alice''
   \<and> logged_in (session_state alice_in)
   \<and> logged_in_as alice_world [Login ''eve'' ''secret1'' True, Login ''alice'' ''secret1'' True]
        ''alice''
   \<and> stored (disk alice_in) [] = None"
proof -
  have s: "session_state alice_world = initial_session"
    by (simp add: alice_world_def)
  have a: "\<not> logged_in (session_state alice_world)"
    by (simp add: alice_world_def initial_session_def)
  have e: "alice_world\<lparr>session_state := \<lparr>logged_in = True, username = ''alice''\<rparr>\<rparr> = alice_in"
    by (simp add: alice_in_def)
  have r: "run alice_world [Login ''eve'' ''secret1'' True, Login ''alice'' ''secret1'' True] = alice_in"
    using a e alice_verify by (simp add: step_Login [OF alice_loads(1,2)])
  have i: "username (session_state alice_in) = ''alice''" "logged_in (session_state alice_in)"
    by (simp_all add: alice_in_def)
  show ?thesis
    using s r i alice_no_empty
      session_invariant [OF alice_no_empty s,
        of "[Login ''eve'' ''secret1'' True, Login ''alice'' ''secret1'' True]"]
    by simp
qed

section \<open>Adding patients\<close>




lemma small_int: "(1000 :: int) \<le> 10 ^ max_str_digits"
proof -
  have "(10 :: int) ^ 3 \<le> 10 ^ max_str_digits"
    by (rule power_increasing) (simp_all add: max_str_digits_def)
  then show ?thesis
    by simp
qed






lemma scan_small: "\<bar>i\<bar> < 1000 \<Longrightarrow> scan n (JInt i) = None"
  using small_int by simp

lemma clinic_loads:
  "logged_in (session_state clinic)"
  "load_records (disk clinic) PATIENT_FILE = Inr (JList [])"
  "load_records (disk clinic) DOCTOR_FILE
     = Inr (JList [doctor_data 1 grey_form, doctor_data 2 sentinel_form])"
  "doctor_options (JList [doctor_data 1 grey_form, doctor_data 2 sentinel_form])
     = Inr [JStr ''Grey'', JStr ''No doctor available'']"
  by (simp_all add: clinic_def alice_files_def no_files_def load_records_def save_users_def
        save_records_def json_load_def scan_numeral scan_small doctor_data_def doctor_options_def
        grey_form_def sentinel_form_def
      del: scan.simps(1))


section \<open>The doctor of a new patient\<close>

lemma names_of_member:
  "names_of ds = Inr ns \<Longrightarrow> d \<in> set ds \<Longrightarrow> getitem d ''name'' = Inr n \<Longrightarrow> n \<in> set ns"
  by (induction ds arbitrary: ns) (auto split: sum.splits)

lemma step_incomplete:
  assumes "logged_in (session_state w)"
    and "load_records (disk w) PATIENT_FILE = Inr patients"
    and "load_records (disk w) DOCTOR_FILE = Inr doctors"
    and "doctor_options doctors = Inr options"
    and "pf_doctor f = JStr ''No doctor available''"
  shows "step w (AddPatient f True) = w"
    and "shown w (AddPatient f True) = [PatientIncomplete]"
  using assms
  by (simp_all add: step_def shown_def script_def main_app_def add_patient_def)

text \<open>
  Claim C7. Somebody is logged in, the patient file loads, and the doctor file loads as
  the empty list, which it does when it is absent. The select box then offers one option,
  the text \<^verbatim>\<open>No doctor available\<close>, and whatever the other fields of the form hold, a
  submission of the page Add Patient shows the warning and leaves every file and the
  session as they were: no record is appended and nothing is written.
\<close>

theorem no_doctor_no_patient:
  assumes "logged_in (session_state w)"
    and "load_records (disk w) PATIENT_FILE = Inr patients"
    and "load_records (disk w) DOCTOR_FILE = Inr (JList [])"
    and "doctor_options (JList []) = Inr options"
    and "pf_doctor f \<in> set options"
  shows "options = [JStr ''No doctor available'']
         \<and> step w (AddPatient f True) = w
         \<and> shown w (AddPatient f True) = [PatientIncomplete]"
proof -
  from assms(4) have o: "options = [JStr ''No doctor available'']"
    by (simp add: doctor_options_def)
  with assms(5) have "pf_doctor f = JStr ''No doctor available''"
    by simp
  with o show ?thesis
    using step_incomplete [OF assms(1-4)] by simp
qed

theorem no_doctor_no_patient_witness:
  "logged_in (session_state alice_in)
   \<and> load_records (disk alice_in) PATIENT_FILE = Inr (JList [])
   \<and> load_records (disk alice_in) DOCTOR_FILE = Inr (JList [])
   \<and> doctor_options (JList []) = Inr [JStr ''No doctor available'']
   \<and> pf_doctor (ann_form\<lparr>pf_doctor := JStr ''No doctor available''\<rparr>)
       \<in> set [JStr ''No doctor available'']
   \<and> step alice_in (AddPatient (ann_form\<lparr>pf_doctor := JStr ''No doctor available''\<rparr>) True)
       = alice_in
   \<and> shown alice_in (AddPatient (ann_form\<lparr>pf_doctor := JStr ''No doctor available''\<rparr>) True)
       = [PatientIncomplete]"
proof -
  have l: "logged_in (session_state alice_in)"
    by (simp add: alice_in_def)
  have o: "doctor_options (JList []) = Inr [JStr ''No doctor available'']"
    by (simp add: doctor_options_def)
  have m: "pf_doctor (ann_form\<lparr>pf_doctor := JStr ''No doctor available''\<rparr>)
             \<in> set [JStr ''No doctor available'']"
    by simp
  show ?thesis
    using l o m alice_loads(3,4) no_doctor_no_patient [OF l alice_loads(3,4) o m]
    by simp
qed

text \<open>
  Claim C9. Somebody is logged in, both record files load, and the list of doctors holds a
  doctor whose name is the text \<^verbatim>\<open>No doctor available\<close>. The select box offers that
  name among its options. When it is the one selected, a submission of the page Add
  Patient shows the warning and leaves every file and the session as they were, whatever
  the other fields hold: the test at line 131 compares the selection with that text.
\<close>

theorem sentinel_doctor:
  assumes "logged_in (session_state w)"
    and "load_records (disk w) PATIENT_FILE = Inr patients"
    and "load_records (disk w) DOCTOR_FILE = Inr (JList ds)"
    and "doctor_options (JList ds) = Inr options"
    and "d \<in> set ds" and "getitem d ''name'' = Inr (JStr ''No doctor available'')"
    and "pf_doctor f = JStr ''No doctor available''"
  shows "pf_doctor f \<in> set options
         \<and> step w (AddPatient f True) = w
         \<and> shown w (AddPatient f True) = [PatientIncomplete]"
proof -
  from assms(5) have "ds \<noteq> []"
    by auto
  with assms(4) have "names_of ds = Inr options"
    by (simp add: doctor_options_def)
  then have "JStr ''No doctor available'' \<in> set options"
    using assms(5,6) by (rule names_of_member)
  with assms(7) show ?thesis
    using step_incomplete [OF assms(1-4) assms(7)] by simp
qed

theorem sentinel_doctor_witness:
  "logged_in (session_state clinic)
   \<and> load_records (disk clinic) PATIENT_FILE = Inr (JList [])
   \<and> load_records (disk clinic) DOCTOR_FILE
       = Inr (JList [doctor_data 1 grey_form, doctor_data 2 sentinel_form])
   \<and> doctor_options (JList [doctor_data 1 grey_form, doctor_data 2 sentinel_form])
       = Inr [JStr ''Grey'', JStr ''No doctor available'']
   \<and> doctor_data 2 sentinel_form \<in> set [doctor_data 1 grey_form, doctor_data 2 sentinel_form]
   \<and> getitem (doctor_data 2 sentinel_form) ''name'' = Inr (JStr ''No doctor available'')
   \<and> pf_doctor (bob_form\<lparr>pf_doctor := JStr ''No doctor available''\<rparr>)
       = JStr ''No doctor available''
   \<and> step clinic (AddPatient (bob_form\<lparr>pf_doctor := JStr ''No doctor available''\<rparr>) True)
       = clinic
   \<and> shown clinic (AddPatient (bob_form\<lparr>pf_doctor := JStr ''No doctor available''\<rparr>) True)
       = [PatientIncomplete]"
proof -
  have m: "doctor_data 2 sentinel_form
             \<in> set [doctor_data 1 grey_form, doctor_data 2 sentinel_form]"
    by simp
  have g: "getitem (doctor_data 2 sentinel_form) ''name'' = Inr (JStr ''No doctor available'')"
    by (simp add: doctor_data_def sentinel_form_def)
  have s: "pf_doctor (bob_form\<lparr>pf_doctor := JStr ''No doctor available''\<rparr>)
             = JStr ''No doctor available''"
    by simp
  show ?thesis
    using clinic_loads m g s sentinel_doctor [OF clinic_loads m g s]
    by simp
qed

end
